theory Spec2Isabelle
  imports Main
begin

section \<open>The date server: data model\<close>

text \<open>
  The server of \<^verbatim>\<open>mcp_date_server.py\<close> has two handlers, \<^verbatim>\<open>list_tools\<close> and
  \<^verbatim>\<open>call_tool\<close>. Both are pure apart from one read of the wall clock, which the
  model takes as an argument (the value \<^verbatim>\<open>datetime.now()\<close> returns for the call).
  An exception that leaves a handler is the \<open>Inl\<close> branch of the result.
\<close>

subsection \<open>Argument values and exceptions\<close>

text \<open>
  The values an argument map (\<^verbatim>\<open>Dict[str, Any]\<close>) binds to its keys: null, booleans,
  integers, strings, arrays and objects of a decoded JSON document. Numbers with a
  fraction are left out; the handlers treat every value that is not a string alike.
\<close>

datatype pyval =
    PNone
  | PBool bool
  | PInt int
  | PStr string
  | PList "pyval list"
  | PDict "(string \<times> pyval) list"

fun type_name :: "pyval \<Rightarrow> string" where
  "type_name PNone = ''None''"
| "type_name (PBool b) = ''bool''"
| "type_name (PInt i) = ''int''"
| "type_name (PStr s) = ''str''"
| "type_name (PList xs) = ''list''"
| "type_name (PDict kvs) = ''dict''"

text \<open>
  Exception classes, with the one subclass relation the handler's
  \<^verbatim>\<open>except ValueError\<close> depends on: \<^verbatim>\<open>UnicodeEncodeError\<close> derives from
  \<^verbatim>\<open>ValueError\<close>. An exception carries its class and its \<^verbatim>\<open>str(e)\<close>.
\<close>

datatype exc_class = ValueError | UnicodeEncodeError | TypeError | OverflowError | MemoryError

datatype py_exception = PyExc exc_class string

fun exc_str :: "py_exception \<Rightarrow> string" where
  "exc_str (PyExc c m) = m"

fun is_ValueError :: "py_exception \<Rightarrow> bool" where
  "is_ValueError (PyExc c m) = (c = ValueError \<or> c = UnicodeEncodeError)"

subsection \<open>Content items and tool descriptors\<close>

record TextContent =
  content_type :: string
  content_text :: string

record property =
  prop_type :: string
  prop_description :: string
  prop_default :: string

record schema =
  schema_type :: string
  properties :: "(string \<times> property) list"
  required :: "string list"
  additionalProperties :: bool

record Tool =
  name :: string
  description :: string
  inputSchema :: schema

subsection \<open>The clock\<close>

text \<open>
  A naive local timestamp, as \<^verbatim>\<open>datetime.now()\<close> returns it. Python compares two
  such values field by field, most significant first.
\<close>

record datetime =
  year :: nat
  month :: nat
  day :: nat
  hour :: nat
  minute :: nat
  second :: nat
  microsecond :: nat

definition valid_datetime :: "datetime \<Rightarrow> bool" where
  "valid_datetime t =
     (1 \<le> year t \<and> year t \<le> 9999 \<and> 1 \<le> month t \<and> month t \<le> 12 \<and>
      1 \<le> day t \<and> day t \<le> 31 \<and> hour t \<le> 23 \<and> minute t \<le> 59 \<and>
      second t \<le> 59 \<and> microsecond t \<le> 999999)"

section \<open>The rendering engine\<close>

text \<open>
  \<^verbatim>\<open>datetime.strftime\<close> belongs to the Python library, not to the server. The
  handlers are modelled over an arbitrary engine
  \<open>datetime \<Rightarrow> pyval \<Rightarrow> py_exception + string\<close>; \<open>strftime\<close> below is the engine
  of CPython 3.11 over the GNU C library, in the C locale, for a timestamp without a
  time zone. A string is the list of the bytes of its UTF-8 encoding.

  \<^item> An argument that is not a string is a \<^verbatim>\<open>TypeError\<close>.
  \<^item> A string with a lone surrogate has no UTF-8 encoding (it is written here with the
    three bytes \<^verbatim>\<open>ED A0..BF 80..BF\<close> per surrogate); the engine raises
    \<^verbatim>\<open>UnicodeEncodeError\<close>, a \<^verbatim>\<open>ValueError\<close>, before it renders anything.
  \<^item> The pattern is read up to its first NUL character.
  \<^item> A \<^verbatim>\<open>%\<close> and the letter after it are replaced by the text of the directive.
    A \<^verbatim>\<open>%\<close> before any other character, and a \<^verbatim>\<open>%\<close> at the end of the pattern,
    are copied to the output with that character: no pattern is rejected.
  \<^item> Numbers are decimals padded with zeros, or with a space for
    \<^verbatim>\<open>%e %k %l\<close>; a year is written on four digits, \<^verbatim>\<open>0001\<close> to \<^verbatim>\<open>9999\<close>
    as in the library reference (the C library itself does not pad a year below 1000).
    Names are the English ones; the time zone directives give the empty string.

  The directives are those of the library reference and the further letters the C
  library knows. Flags and widths between the \<^verbatim>\<open>%\<close> and the letter, the modifiers
  \<^verbatim>\<open>E\<close> and \<^verbatim>\<open>O\<close>, and \<^verbatim>\<open>%s\<close> (seconds since the epoch, which depend on the
  time zone of the process) are outside the model; no statement below renders a
  pattern that has one.
\<close>

subsection \<open>The calendar\<close>

definition is_leap :: "nat \<Rightarrow> bool" where
  "is_leap y = (if y mod 100 = 0 then y mod 400 = 0 else y mod 4 = 0)"

definition days_before_month :: "nat \<Rightarrow> nat \<Rightarrow> nat" where
  "days_before_month y m =
     [0, 31, 59, 90, 120, 151, 181, 212, 243, 273, 304, 334] ! (m - 1) +
     (if 2 < m \<and> is_leap y then 1 else 0)"

text \<open>The day of the year, from 1.\<close>

definition yday :: "datetime \<Rightarrow> nat" where
  "yday t = days_before_month (year t) (month t) + day t"

text \<open>The number of the day, from 1 for the first of January of the year 1.\<close>

definition ordinal :: "datetime \<Rightarrow> nat" where
  "ordinal t =
     (year t - 1) * 365 + (year t - 1) div 4 - (year t - 1) div 100 + (year t - 1) div 400 +
     yday t"

text \<open>The day of the week, from 0 for Monday.\<close>

definition weekday :: "datetime \<Rightarrow> nat" where
  "weekday t = (ordinal t + 6) mod 7"

definition weekday_names :: "string list" where
  "weekday_names =
     [''Monday'', ''Tuesday'', ''Wednesday'', ''Thursday'', ''Friday'', ''Saturday'',
      ''Sunday'']"

text \<open>The week of the year, the weeks starting on the day \<open>first\<close> (0 for Monday).\<close>

definition week_of_year :: "nat \<Rightarrow> datetime \<Rightarrow> nat" where
  "week_of_year first t = (yday t - 1 + 7 - (weekday t + 7 - first) mod 7) div 7"

text \<open>The ISO 8601 calendar: the year has 52 or 53 weeks, the first holds its first Thursday.\<close>

definition iso_weeks_in :: "nat \<Rightarrow> nat" where
  "iso_weeks_in y =
     (let p = (\<lambda>y. (y + y div 4 - y div 100 + y div 400) mod 7)
      in if p y = 4 \<or> p (y - 1) = 3 then 53 else 52)"

definition iso_year_week :: "datetime \<Rightarrow> nat \<times> nat" where
  "iso_year_week t =
     (let w = (yday t + 10 - (weekday t + 1)) div 7
      in if w < 1 then (year t - 1, iso_weeks_in (year t - 1))
         else if iso_weeks_in (year t) < w then (year t + 1, 1)
         else (year t, w))"

subsection \<open>Directives\<close>

definition digit :: "nat \<Rightarrow> char" where
  "digit d = char_of (48 + d)"

fun dec :: "nat \<Rightarrow> string" where
  "dec n = (if n < 10 then [digit n] else dec (n div 10) @ [digit (n mod 10)])"

declare dec.simps [simp del]

definition zfill :: "nat \<Rightarrow> string \<Rightarrow> string" where
  "zfill w s = replicate (w - length s) (CHR ''0'') @ s"

definition sfill :: "nat \<Rightarrow> string \<Rightarrow> string" where
  "sfill w s = replicate (w - length s) (CHR '' '') @ s"

definition month_names :: "string list" where
  "month_names =
     [''January'', ''February'', ''March'', ''April'', ''May'', ''June'', ''July'',
      ''August'', ''September'', ''October'', ''November'', ''December'']"

definition month_name :: "nat \<Rightarrow> string" where
  "month_name m = month_names ! (m - 1)"

definition hour12 :: "nat \<Rightarrow> nat" where
  "hour12 h = (if h mod 12 = 0 then 12 else h mod 12)"

definition am_pm :: "nat \<Rightarrow> string" where
  "am_pm h = (if h < 12 then ''AM'' else ''PM'')"

definition hms :: "datetime \<Rightarrow> string" where
  "hms t = zfill 2 (dec (hour t)) @ '':'' @ zfill 2 (dec (minute t)) @ '':'' @
     zfill 2 (dec (second t))"

definition mdy :: "datetime \<Rightarrow> string" where
  "mdy t = zfill 2 (dec (month t)) @ ''/'' @ zfill 2 (dec (day t)) @ ''/'' @
     zfill 2 (dec (year t mod 100))"

definition directive :: "datetime \<Rightarrow> char \<Rightarrow> string option" where
  "directive t c =
     (if c = CHR ''Y'' then Some (zfill 4 (dec (year t)))
      else if c = CHR ''m'' then Some (zfill 2 (dec (month t)))
      else if c = CHR ''d'' then Some (zfill 2 (dec (day t)))
      else if c = CHR ''H'' then Some (zfill 2 (dec (hour t)))
      else if c = CHR ''M'' then Some (zfill 2 (dec (minute t)))
      else if c = CHR ''S'' then Some (zfill 2 (dec (second t)))
      else if c = CHR ''I'' then Some (zfill 2 (dec (hour12 (hour t))))
      else if c = CHR ''p'' then Some (am_pm (hour t))
      else if c = CHR ''B'' then Some (month_name (month t))
      else if c = CHR ''%'' then Some ''%''
      else if c = CHR ''b'' \<or> c = CHR ''h'' then Some (take 3 (month_name (month t)))
      else if c = CHR ''A'' then Some (weekday_names ! weekday t)
      else if c = CHR ''a'' then Some (take 3 (weekday_names ! weekday t))
      else if c = CHR ''w'' then Some (dec ((weekday t + 1) mod 7))
      else if c = CHR ''u'' then Some (dec (weekday t + 1))
      else if c = CHR ''j'' then Some (zfill 3 (dec (yday t)))
      else if c = CHR ''U'' then Some (zfill 2 (dec (week_of_year 6 t)))
      else if c = CHR ''W'' then Some (zfill 2 (dec (week_of_year 0 t)))
      else if c = CHR ''G'' then Some (zfill 4 (dec (fst (iso_year_week t))))
      else if c = CHR ''g'' then Some (zfill 2 (dec (fst (iso_year_week t) mod 100)))
      else if c = CHR ''V'' then Some (zfill 2 (dec (snd (iso_year_week t))))
      else if c = CHR ''y'' then Some (zfill 2 (dec (year t mod 100)))
      else if c = CHR ''C'' then Some (dec (year t div 100))
      else if c = CHR ''e'' then Some (sfill 2 (dec (day t)))
      else if c = CHR ''k'' then Some (sfill 2 (dec (hour t)))
      else if c = CHR ''l'' then Some (sfill 2 (dec (hour12 (hour t))))
      else if c = CHR ''P'' then Some (if hour t < 12 then ''am'' else ''pm'')
      else if c = CHR ''f'' then Some (zfill 6 (dec (microsecond t)))
      else if c = CHR ''z'' \<or> c = CHR ''Z'' then Some []
      else if c = CHR ''n'' then Some [CHR 0x0A]
      else if c = CHR ''t'' then Some [CHR 0x09]
      else if c = CHR ''T'' \<or> c = CHR ''X'' then Some (hms t)
      else if c = CHR ''R'' then Some (zfill 2 (dec (hour t)) @ '':'' @ zfill 2 (dec (minute t)))
      else if c = CHR ''r'' then
        Some (zfill 2 (dec (hour12 (hour t))) @ '':'' @ zfill 2 (dec (minute t)) @ '':'' @
              zfill 2 (dec (second t)) @ '' '' @ am_pm (hour t))
      else if c = CHR ''D'' \<or> c = CHR ''x'' then Some (mdy t)
      else if c = CHR ''F'' then
        Some (zfill 4 (dec (year t)) @ ''-'' @ zfill 2 (dec (month t)) @ ''-'' @
              zfill 2 (dec (day t)))
      else if c = CHR ''c'' then
        Some (take 3 (weekday_names ! weekday t) @ '' '' @ take 3 (month_name (month t)) @
              '' '' @ sfill 2 (dec (day t)) @ '' '' @ hms t @ '' '' @ zfill 4 (dec (year t)))
      else None)"

text \<open>
  The pattern is rewritten from left to right; a \<^verbatim>\<open>%\<close> that starts no known
  directive stays in the output, with the character after it.
\<close>

fun expand :: "datetime \<Rightarrow> string \<Rightarrow> string" where
  "expand t [] = []"
| "expand t [c] = [c]"
| "expand t (c # d # cs) =
     (if c = CHR ''%'' then
        (case directive t d of
           None \<Rightarrow> c # d # expand t cs
         | Some s \<Rightarrow> s @ expand t cs)
      else c # expand t (d # cs))"

definition render :: "datetime \<Rightarrow> string \<Rightarrow> string" where
  "render t f = expand t (takeWhile (\<lambda>c. c \<noteq> CHR 0x00) f)"

subsection \<open>Strings that cannot be encoded\<close>

text \<open>
  The engine encodes the pattern before it reads it. The error names the first run
  of surrogates by the index of its code points; a byte \<^verbatim>\<open>80\<close> to \<^verbatim>\<open>BF\<close>
  continues a code point, any other byte starts one.
\<close>

definition is_cont :: "char \<Rightarrow> bool" where
  "is_cont c = (128 \<le> (of_char c :: nat) \<and> (of_char c :: nat) < 192)"

fun surrogate_at :: "string \<Rightarrow> bool" where
  "surrogate_at (a # b # c # cs) =
     ((of_char a :: nat) = 237 \<and> 160 \<le> (of_char b :: nat) \<and> (of_char b :: nat) \<le> 191 \<and>
      is_cont c)"
| "surrogate_at cs = False"

fun surrogate_run :: "string \<Rightarrow> nat" where
  "surrogate_run (a # b # c # cs) =
     (if surrogate_at [a, b, c] then Suc (surrogate_run cs) else 0)"
| "surrogate_run cs = 0"

fun find_surrogate :: "nat \<Rightarrow> string \<Rightarrow> (nat \<times> string) option" where
  "find_surrogate i [] = None"
| "find_surrogate i (c # cs) =
     (if surrogate_at (c # cs) then Some (i, c # cs)
      else find_surrogate (if is_cont c then i else Suc i) cs)"

definition hex_digit :: "nat \<Rightarrow> char" where
  "hex_digit n = (if n < 10 then char_of (48 + n) else char_of (87 + n))"

definition surrogate_escape :: "string \<Rightarrow> string" where
  "surrogate_escape s =
     (let b = (of_char (s ! 1) :: nat) mod 64; c = (of_char (s ! 2) :: nat) mod 64
      in [CHR 0x5C, CHR ''u'', CHR ''d'', hex_digit (b div 4),
          hex_digit (b mod 4 * 4 + c div 16), hex_digit (c mod 16)])"

definition encode_error :: "nat \<Rightarrow> string \<Rightarrow> string" where
  "encode_error i s =
     [CHR 0x27] @ ''utf-8'' @ [CHR 0x27] @ '' codec can'' @ [CHR 0x27] @ ''t encode '' @
     (if surrogate_run s = 1
      then ''character '' @ [CHR 0x27] @ surrogate_escape s @ [CHR 0x27] @
           '' in position '' @ dec i
      else ''characters in position '' @ dec i @ ''-'' @ dec (i + surrogate_run s - 1)) @
     '': surrogates not allowed''"

definition strftime :: "datetime \<Rightarrow> pyval \<Rightarrow> py_exception + string" where
  "strftime t v =
     (case v of
        PStr f \<Rightarrow>
          (case find_surrogate 0 f of
             Some (i, s) \<Rightarrow> Inl (PyExc UnicodeEncodeError (encode_error i s))
           | None \<Rightarrow> Inr (render t f))
      | _ \<Rightarrow> Inl (PyExc TypeError
                 (''strftime() argument 1 must be str, not '' @ type_name v)))"

section \<open>The handlers\<close>

text \<open>
  \<^verbatim>\<open>list_tools\<close> takes no argument and reads nothing; the model gives it the
  process state at the call as an argument, which it ignores.
\<close>

definition list_tools :: "'w \<Rightarrow> Tool list" where
  "list_tools w =
     [\<lparr>name = ''get_current_date'',
       description = ''Get the current date and time.'' @ [CHR 0x0A, CHR 0x0A] @
         ''    Returns:'' @ [CHR 0x0A] @
         ''        The current date and time in a human-readable format'',
       inputSchema = \<lparr>schema_type = ''object'', properties = [], required = [],
         additionalProperties = False\<rparr>\<rparr>,
      \<lparr>name = ''get_date_with_format'',
       description = ''Get the current date with a specific format.'' @
         [CHR 0x0A, CHR 0x0A] @ ''    Args:'' @ [CHR 0x0A] @
         ''        format: The format string (e.g., '' @ [CHR 0x27] @ ''%Y-%m-%d'' @
         [CHR 0x27] @ '', '' @ [CHR 0x27] @ ''%B %d, %Y'' @ [CHR 0x27] @ '')'',
       inputSchema = \<lparr>schema_type = ''object'',
         properties = [(''format'',
           \<lparr>prop_type = ''string'', prop_description = ''The datetime format string'',
            prop_default = ''%Y-%m-%d %H:%M:%S''\<rparr>)],
         required = [], additionalProperties = False\<rparr>\<rparr>]"

text \<open>\<^verbatim>\<open>d.get(k, default)\<close> on a dictionary.\<close>

definition dict_get :: "('k \<rightharpoonup> 'v) \<Rightarrow> 'k \<Rightarrow> 'v \<Rightarrow> 'v" where
  "dict_get d k dflt = (case d k of None \<Rightarrow> dflt | Some v \<Rightarrow> v)"

definition text_item :: "string \<Rightarrow> TextContent" where
  "text_item s = \<lparr>content_type = ''text'', content_text = s\<rparr>"

text \<open>
  \<^verbatim>\<open>call_tool(name, arguments)\<close>, over the engine \<open>fmt\<close> and the clock reading
  \<open>now\<close>. The first branch has no handler for exceptions; the second catches
  \<^verbatim>\<open>ValueError\<close> (and its subclasses) only.
\<close>

definition call_tool ::
  "(datetime \<Rightarrow> pyval \<Rightarrow> py_exception + string) \<Rightarrow> datetime \<Rightarrow> string \<Rightarrow>
   (string \<rightharpoonup> pyval) \<Rightarrow> py_exception + TextContent list" where
  "call_tool fmt now nm arguments =
     (if nm = ''get_current_date'' then
        (case fmt now (PStr ''%B %d, %Y at %I:%M %p'') of
           Inl e \<Rightarrow> Inl e
         | Inr s \<Rightarrow> Inr [text_item (''Current date and time: '' @ s)])
      else if nm = ''get_date_with_format'' then
        (let format_string = dict_get arguments ''format'' (PStr ''%Y-%m-%d %H:%M:%S'')
         in case fmt now format_string of
              Inr s \<Rightarrow> Inr [text_item s]
            | Inl e \<Rightarrow>
                if is_ValueError e
                then Inr [text_item (''Error: Invalid format string - '' @ exc_str e)]
                else Inl e)
      else Inr [text_item (''Error: Unknown tool '' @ [CHR 0x27] @ nm @ [CHR 0x27])])"

section \<open>What the claims are stated with\<close>

subsection \<open>Text patterns\<close>

text \<open>
  The regular expressions of the specification use three constructs only: a decimal
  digit, a literal, and a choice between literals. A pattern is anchored at both ends.
\<close>

definition is_digit :: "char \<Rightarrow> bool" where
  "is_digit c = (48 \<le> (of_char c :: nat) \<and> (of_char c :: nat) \<le> 57)"

datatype pat = Digit | Lit string | OneOf "string list"

fun matches :: "pat list \<Rightarrow> string \<Rightarrow> bool" where
  "matches [] s = (s = [])"
| "matches (Digit # ps) s =
     (case s of [] \<Rightarrow> False | c # cs \<Rightarrow> is_digit c \<and> matches ps cs)"
| "matches (Lit w # ps) s = (take (length w) s = w \<and> matches ps (drop (length w) s))"
| "matches (OneOf ws # ps) s =
     (\<exists>w\<in>set ws. take (length w) s = w \<and> matches ps (drop (length w) s))"

text \<open>\<^verbatim>\<open>^\d{4}-\d{2}-\d{2}$\<close>\<close>

definition date_re :: "pat list" where
  "date_re = [Digit, Digit, Digit, Digit, Lit ''-'', Digit, Digit, Lit ''-'', Digit, Digit]"

text \<open>\<^verbatim>\<open>^\d{4}-\d{2}-\d{2} \d{2}:\d{2}:\d{2}$\<close>\<close>

definition datetime_re :: "pat list" where
  "datetime_re = date_re @
     [Lit '' '', Digit, Digit, Lit '':'', Digit, Digit, Lit '':'', Digit, Digit]"

text \<open>
  The long form: month name, day, four-digit year, hour and minute, AM or PM, after
  the fixed wording of the handler.
\<close>

definition tail_re :: "pat list" where
  "tail_re =
     [Lit '' '', Digit, Digit, Lit '', '', Digit, Digit, Digit, Digit, Lit '' at '',
      Digit, Digit, Lit '':'', Digit, Digit, Lit '' '', OneOf [''AM'', ''PM'']]"

definition long_form_re :: "pat list" where
  "long_form_re = [Lit ''Current date and time: '', OneOf month_names] @ tail_re"

definition long_form :: "datetime \<Rightarrow> string" where
  "long_form t = ''Current date and time: '' @ month_name (month t) @ '' '' @
     zfill 2 (dec (day t)) @ '', '' @ zfill 4 (dec (year t)) @ '' at '' @
     zfill 2 (dec (hour12 (hour t))) @ '':'' @ zfill 2 (dec (minute t)) @ '' '' @
     am_pm (hour t)"

subsection \<open>Reading the timestamp back from the long form\<close>

definition undigit :: "char \<Rightarrow> nat" where
  "undigit c = of_char c - 48"

definition undec :: "string \<Rightarrow> nat" where
  "undec s = foldl (\<lambda>a c. 10 * a + undigit c) 0 s"

definition strip_prefix :: "string \<Rightarrow> string \<Rightarrow> string option" where
  "strip_prefix w s = (if take (length w) s = w then Some (drop (length w) s) else None)"

fun parse_month :: "nat \<Rightarrow> string list \<Rightarrow> string \<Rightarrow> (nat \<times> string) option" where
  "parse_month i [] s = None"
| "parse_month i (w # ws) s =
     (case strip_prefix w s of Some r \<Rightarrow> Some (i, r) | None \<Rightarrow> parse_month (Suc i) ws s)"

text \<open>
  The timestamp a long-form text embeds, as year, month, day, hour (0 to 23) and
  minute; \<open>None\<close> for any other text.
\<close>

definition embedded_timestamp :: "string \<Rightarrow> nat list option" where
  "embedded_timestamp s =
     (case strip_prefix ''Current date and time: '' s of
        None \<Rightarrow> None
      | Some s1 \<Rightarrow>
          (case parse_month 1 month_names s1 of
             None \<Rightarrow> None
           | Some (mo, s2) \<Rightarrow>
               if matches tail_re s2 then
                 Some [undec (take 4 (drop 5 s2)), mo, undec (take 2 (drop 1 s2)),
                       undec (take 2 (drop 13 s2)) mod 12 +
                         (if take 2 (drop 19 s2) = ''PM'' then 12 else 0),
                       undec (take 2 (drop 16 s2))]
               else None))"

subsection \<open>The order of clock readings\<close>

text \<open>Python compares two timestamps as it compares tuples of their fields.\<close>

fun lex_le :: "nat list \<Rightarrow> nat list \<Rightarrow> bool" where
  "lex_le [] ys = True"
| "lex_le (x # xs) [] = False"
| "lex_le (x # xs) (y # ys) = (x < y \<or> (x = y \<and> lex_le xs ys))"

definition fields :: "datetime \<Rightarrow> nat list" where
  "fields t = [year t, month t, day t, hour t, minute t, second t, microsecond t]"

definition dt_le :: "datetime \<Rightarrow> datetime \<Rightarrow> bool" where
  "dt_le a b = lex_le (fields a) (fields b)"

subsection \<open>Clock readings used in the examples\<close>

definition clock_a :: datetime where
  "clock_a = \<lparr>year = 2024, month = 3, day = 9, hour = 14, minute = 5, second = 7,
     microsecond = 0\<rparr>"

definition clock_b :: datetime where
  "clock_b = \<lparr>year = 2024, month = 3, day = 9, hour = 14, minute = 6, second = 1,
     microsecond = 250000\<rparr>"

text \<open>Five minutes after midnight, and a morning.\<close>

definition clock_c :: datetime where
  "clock_c = \<lparr>year = 2025, month = 1, day = 1, hour = 0, minute = 5, second = 0,
     microsecond = 0\<rparr>"

definition clock_d :: datetime where
  "clock_d = \<lparr>year = 2023, month = 11, day = 30, hour = 9, minute = 41, second = 59,
     microsecond = 17\<rparr>"

text \<open>The pattern that is one lone surrogate, \<^verbatim>\<open>'\ud800'\<close> in Python.\<close>

definition lone_surrogate :: string where
  "lone_surrogate = [CHR 0xED, CHR 0xA0, CHR 0x80]"

definition lone_surrogate_message :: string where
  "lone_surrogate_message =
     [CHR 0x27] @ ''utf-8'' @ [CHR 0x27] @ '' codec can'' @ [CHR 0x27] @
     ''t encode character '' @ [CHR 0x27, CHR 0x5C] @ ''ud800'' @ [CHR 0x27] @
     '' in position 0: surrogates not allowed''"

section \<open>Facts about the rendering engine\<close>

subsection \<open>Decimal digits\<close>

lemma digit0: "digit 0 = CHR ''0''"
  unfolding digit_def by code_simp

lemma is_digit_digit: "d < 10 \<Longrightarrow> is_digit (digit d)"
  by (simp add: is_digit_def digit_def)

lemma undigit_digit: "d < 10 \<Longrightarrow> undigit (digit d) = d"
  by (simp add: undigit_def digit_def)

lemma dec_lt10: "n < 10 \<Longrightarrow> dec n = [digit n]"
  by (subst dec.simps) simp

lemma dec_ge10: "10 \<le> n \<Longrightarrow> dec n = dec (n div 10) @ [digit (n mod 10)]"
  by (subst dec.simps) simp

lemma dec2: "10 \<le> n \<Longrightarrow> n < 100 \<Longrightarrow> dec n = [digit (n div 10), digit (n mod 10)]"
  by (simp add: dec_ge10 dec_lt10)

lemma dec3:
  assumes "100 \<le> n" "n < 1000"
  shows "dec n = [digit (n div 100), digit (n div 10 mod 10), digit (n mod 10)]"
proof -
  have a: "10 \<le> n" "10 \<le> n div 10" "n div 10 < 100" using assms by auto
  have b: "n div 10 div 10 = n div 100" by (simp add: div_mult2_eq[symmetric])
  have "dec n = dec (n div 10) @ [digit (n mod 10)]" using a(1) by (rule dec_ge10)
  also have "dec (n div 10) = [digit (n div 10 div 10), digit (n div 10 mod 10)]"
    using a(2,3) by (rule dec2)
  finally show ?thesis by (simp only: b append_Cons append_Nil)
qed

lemma dec4:
  assumes "1000 \<le> n" "n < 10000"
  shows "dec n =
    [digit (n div 1000), digit (n div 100 mod 10), digit (n div 10 mod 10), digit (n mod 10)]"
proof -
  have a: "10 \<le> n" "100 \<le> n div 10" "n div 10 < 1000" using assms by auto
  have b: "n div 10 div 100 = n div 1000" "n div 10 div 10 = n div 100"
    by (simp_all add: div_mult2_eq[symmetric])
  have "dec n = dec (n div 10) @ [digit (n mod 10)]" using a(1) by (rule dec_ge10)
  also have "dec (n div 10) =
      [digit (n div 10 div 100), digit (n div 10 div 10 mod 10), digit (n div 10 mod 10)]"
    using a(2,3) by (rule dec3)
  finally show ?thesis by (simp only: b append_Cons append_Nil)
qed

lemma zfill2: "n < 100 \<Longrightarrow> zfill 2 (dec n) = [digit (n div 10), digit (n mod 10)]"
  by (cases "n < 10") (simp_all add: zfill_def dec_lt10 dec_ge10 digit0 numeral_2_eq_2)

lemma zfill4_pad:
  "zfill 4 [a] = [CHR ''0'', CHR ''0'', CHR ''0'', a]"
  "zfill 4 [a, b] = [CHR ''0'', CHR ''0'', a, b]"
  "zfill 4 [a, b, c] = [CHR ''0'', a, b, c]"
  "zfill 4 [a, b, c, d] = [a, b, c, d]"
  by (simp_all add: zfill_def numeral_eq_Suc)

lemma zfill4:
  assumes n: "n < 10000"
  shows "zfill 4 (dec n) =
    [digit (n div 1000), digit (n div 100 mod 10), digit (n div 10 mod 10), digit (n mod 10)]"
proof -
  consider "n < 10" | "10 \<le> n" "n < 100" | "100 \<le> n" "n < 1000" | "1000 \<le> n"
    by linarith
  then show ?thesis
  proof cases
    case 1
    then show ?thesis by (simp add: zfill4_pad dec_lt10 digit0)
  next
    case 2
    then show ?thesis by (simp add: zfill4_pad dec2 digit0)
  next
    case 3
    then show ?thesis by (simp add: zfill4_pad dec3 digit0)
  next
    case 4
    with n show ?thesis by (simp add: zfill4_pad dec4)
  qed
qed

lemma is_digit_mod10: "is_digit (digit (n mod 10))"
  by (rule is_digit_digit) simp

lemma is_digit_div10: "n < 100 \<Longrightarrow> is_digit (digit (n div 10))"
  by (rule is_digit_digit) simp

lemma is_digit_div1000: "n < 10000 \<Longrightarrow> is_digit (digit (n div 1000))"
  by (rule is_digit_digit) simp

lemma undec2: "a < 10 \<Longrightarrow> b < 10 \<Longrightarrow> undec [digit a, digit b] = 10 * a + b"
  by (simp add: undec_def undigit_digit)

lemma undec4: "a < 10 \<Longrightarrow> b < 10 \<Longrightarrow> c < 10 \<Longrightarrow> d < 10 \<Longrightarrow>
  undec [digit a, digit b, digit c, digit d] = 1000 * a + 100 * b + 10 * c + d"
  by (simp add: undec_def undigit_digit)

lemma split4:
  "1000 * (n div 1000) + 100 * (n div 100 mod 10) + 10 * (n div 10 mod 10) + n mod 10 =
   (n::nat)"
proof -
  define q1 where "q1 = n div 10"
  define q2 where "q2 = n div 100"
  define q3 where "q3 = n div 1000"
  have a: "q1 div 10 = q2" "q2 div 10 = q3"
    by (simp_all add: q1_def q2_def q3_def div_mult2_eq[symmetric])
  have 1: "n = 10 * q1 + n mod 10" by (simp add: q1_def)
  have 2: "q1 = 10 * q2 + q1 mod 10" using a(1) mult_div_mod_eq[of 10 q1] by simp
  have 3: "q2 = 10 * q3 + q2 mod 10" using a(2) mult_div_mod_eq[of 10 q2] by simp
  have "1000 * q3 + 100 * (q2 mod 10) + 10 * (q1 mod 10) + n mod 10 = n"
    using 1 2 3 by linarith
  then show ?thesis by (simp only: q1_def q2_def q3_def)
qed

subsection \<open>Hours and months\<close>

lemma hour12_bound: "hour12 h < 100"
proof -
  have "h mod 12 < 12" by simp
  then have "h mod 12 < 100" by linarith
  then show ?thesis by (simp add: hour12_def)
qed

lemma hour12_digits: "hour12 h div 10 < 10"
  using hour12_bound[of h] by simp

lemma hour12_range: "1 \<le> hour12 h \<and> hour12 h \<le> 12"
proof -
  have "h mod 12 < 12" by simp
  then show ?thesis by (simp add: hour12_def)
qed

lemma hour_back: "h \<le> 23 \<Longrightarrow>
  hour12 h mod 12 + (if am_pm h = ''PM'' then 12 else 0) = h"
  by (auto simp: hour12_def am_pm_def) presburger+

lemma month_cases:
  assumes "1 \<le> m" "m \<le> 12"
  shows "m = 1 \<or> m = 2 \<or> m = 3 \<or> m = 4 \<or> m = 5 \<or> m = 6 \<or> m = 7 \<or> m = 8 \<or> m = 9 \<or>
         m = 10 \<or> m = 11 \<or> m = (12::nat)"
  using assms by arith

lemma month_name_mem: "1 \<le> m \<Longrightarrow> m \<le> 12 \<Longrightarrow> month_name m \<in> set month_names"
  unfolding month_name_def by (rule nth_mem) (simp add: month_names_def)

lemma parse_month_name:
  assumes "1 \<le> m" "m \<le> 12"
  shows "parse_month 1 month_names (month_name m @ r) = Some (m, r)"
  using month_cases[OF assms]
  by (elim disjE) (simp_all add: month_name_def month_names_def strip_prefix_def)

subsection \<open>The three patterns of the server\<close>

lemma render_date: "strftime t (PStr ''%Y-%m-%d'') =
  Inr (zfill 4 (dec (year t)) @ ''-'' @ zfill 2 (dec (month t)) @ ''-'' @
       zfill 2 (dec (day t)))"
  by (simp add: strftime_def render_def is_cont_def directive_def)

lemma render_datetime: "strftime t (PStr ''%Y-%m-%d %H:%M:%S'') =
  Inr (zfill 4 (dec (year t)) @ ''-'' @ zfill 2 (dec (month t)) @ ''-'' @
       zfill 2 (dec (day t)) @ '' '' @ zfill 2 (dec (hour t)) @ '':'' @
       zfill 2 (dec (minute t)) @ '':'' @ zfill 2 (dec (second t)))"
  by (simp add: strftime_def render_def is_cont_def directive_def)

lemma render_long: "strftime t (PStr ''%B %d, %Y at %I:%M %p'') =
  Inr (month_name (month t) @ '' '' @ zfill 2 (dec (day t)) @ '', '' @
       zfill 4 (dec (year t)) @ '' at '' @ zfill 2 (dec (hour12 (hour t))) @ '':'' @
       zfill 2 (dec (minute t)) @ '' '' @ am_pm (hour t))"
  by (simp add: strftime_def render_def is_cont_def directive_def)

lemma matches_date:
  assumes "valid_datetime t"
  shows "matches date_re
    (zfill 4 (dec (year t)) @ ''-'' @ zfill 2 (dec (month t)) @ ''-'' @
     zfill 2 (dec (day t)))"
proof -
  from assms have b: "year t < 10000" "month t < 100" "day t < 100"
    by (simp_all add: valid_datetime_def)
  show ?thesis
    by (simp add: date_re_def zfill4[OF b(1)] zfill2[OF b(2)] zfill2[OF b(3)]
        is_digit_mod10 is_digit_div10 is_digit_div1000 is_digit_digit b)
qed

lemma matches_datetime:
  assumes "valid_datetime t"
  shows "matches datetime_re
    (zfill 4 (dec (year t)) @ ''-'' @ zfill 2 (dec (month t)) @ ''-'' @
     zfill 2 (dec (day t)) @ '' '' @ zfill 2 (dec (hour t)) @ '':'' @
     zfill 2 (dec (minute t)) @ '':'' @ zfill 2 (dec (second t)))"
proof -
  from assms have b: "year t < 10000" "month t < 100" "day t < 100" "hour t < 100"
    "minute t < 100" "second t < 100"
    by (simp_all add: valid_datetime_def)
  show ?thesis
    by (simp add: datetime_re_def date_re_def zfill4[OF b(1)] zfill2[OF b(2)]
        zfill2[OF b(3)] zfill2[OF b(4)] zfill2[OF b(5)] zfill2[OF b(6)]
        is_digit_mod10 is_digit_div10 is_digit_div1000 is_digit_digit b)
qed

subsection \<open>The long form\<close>

lemma current_date_text:
  "call_tool strftime t ''get_current_date'' arguments = Inr [text_item (long_form t)]"
  by (simp add: call_tool_def render_long long_form_def)

lemma long_form_explicit:
  assumes "valid_datetime t"
  shows "long_form t = ''Current date and time: '' @ month_name (month t) @
    [CHR '' '', digit (day t div 10), digit (day t mod 10), CHR '','', CHR '' '',
     digit (year t div 1000), digit (year t div 100 mod 10), digit (year t div 10 mod 10),
     digit (year t mod 10), CHR '' '', CHR ''a'', CHR ''t'', CHR '' '',
     digit (hour12 (hour t) div 10), digit (hour12 (hour t) mod 10), CHR '':'',
     digit (minute t div 10), digit (minute t mod 10), CHR '' ''] @ am_pm (hour t)"
proof -
  from assms have b: "year t < 10000" "day t < 100" "minute t < 100"
    by (simp_all add: valid_datetime_def)
  show ?thesis
    by (simp add: long_form_def zfill4[OF b(1)] zfill2[OF b(2)] zfill2[OF b(3)]
        zfill2[OF hour12_bound])
qed

lemma matches_tail:
  assumes "a < 10" "b < 10" "c < 10" "d < 10" "e < 10" "f < 10" "g < 10" "h < 10"
    "i < 10" "j < 10"
  shows "matches tail_re
    ([CHR '' '', digit a, digit b, CHR '','', CHR '' '', digit c, digit d, digit e, digit f,
      CHR '' '', CHR ''a'', CHR ''t'', CHR '' '', digit g, digit h, CHR '':'', digit i,
      digit j, CHR '' ''] @ am_pm k)"
  using assms by (simp add: tail_re_def is_digit_digit am_pm_def)

lemma matches_Lit_append: "matches ps r \<Longrightarrow> matches (Lit w # ps) (w @ r)"
  by simp

lemma matches_OneOf_append:
  "w \<in> set ws \<Longrightarrow> matches ps r \<Longrightarrow> matches (OneOf ws # ps) (w @ r)"
  unfolding matches.simps by (rule bexI[of _ w]) simp_all

lemma long_form_digits:
  assumes "valid_datetime t"
  shows "day t div 10 < 10" "day t mod 10 < 10" "year t div 1000 < 10"
    "year t div 100 mod 10 < 10" "year t div 10 mod 10 < 10" "year t mod 10 < 10"
    "hour12 (hour t) div 10 < 10" "hour12 (hour t) mod 10 < 10"
    "minute t div 10 < 10" "minute t mod 10 < 10"
proof -
  from assms have b: "year t < 10000" "day t < 100" "minute t < 100"
    by (simp_all add: valid_datetime_def)
  show "day t div 10 < 10" "day t mod 10 < 10" "year t div 1000 < 10"
    "year t div 100 mod 10 < 10" "year t div 10 mod 10 < 10" "year t mod 10 < 10"
    "hour12 (hour t) div 10 < 10" "hour12 (hour t) mod 10 < 10"
    "minute t div 10 < 10" "minute t mod 10 < 10"
    using b hour12_digits[of "hour t"] by simp_all
qed

lemma matches_long_form:
  assumes "valid_datetime t"
  shows "matches long_form_re (long_form t)"
proof -
  from assms have m: "1 \<le> month t" "month t \<le> 12"
    by (simp_all add: valid_datetime_def)
  have re: "long_form_re = Lit ''Current date and time: '' # OneOf month_names # tail_re"
    by (simp add: long_form_re_def)
  show ?thesis
    unfolding long_form_explicit[OF assms] re
    by (intro matches_Lit_append matches_OneOf_append month_name_mem m
        matches_tail long_form_digits[OF assms])
qed

lemma embedded_long_form:
  assumes "valid_datetime t"
  shows "embedded_timestamp (long_form t) = Some [year t, month t, day t, hour t, minute t]"
proof -
  from assms have b: "hour t \<le> 23" "1 \<le> month t" "month t \<le> 12"
    by (simp_all add: valid_datetime_def)
  note d = long_form_digits[OF assms]
  define rest where "rest =
    [CHR '' '', digit (day t div 10), digit (day t mod 10), CHR '','', CHR '' '',
     digit (year t div 1000), digit (year t div 100 mod 10), digit (year t div 10 mod 10),
     digit (year t mod 10), CHR '' '', CHR ''a'', CHR ''t'', CHR '' '',
     digit (hour12 (hour t) div 10), digit (hour12 (hour t) mod 10), CHR '':'',
     digit (minute t div 10), digit (minute t mod 10), CHR '' ''] @ am_pm (hour t)"
  have lf: "long_form t = ''Current date and time: '' @ month_name (month t) @ rest"
    unfolding rest_def by (rule long_form_explicit[OF assms])
  have s1: "strip_prefix ''Current date and time: '' (long_form t) =
      Some (month_name (month t) @ rest)"
    unfolding lf by (simp add: strip_prefix_def)
  have s2: "parse_month 1 month_names (month_name (month t) @ rest) = Some (month t, rest)"
    using b(2,3) by (rule parse_month_name)
  have s3: "matches tail_re rest"
    unfolding rest_def by (rule matches_tail[OF d])
  have pm: "(take 2 (am_pm (hour t)) = ''PM'') = (am_pm (hour t) = ''PM'')"
    by (simp add: am_pm_def)
  have yy: "undec (take 4 (drop 5 rest)) = year t"
    unfolding rest_def by (simp add: undec4 d split4)
  have dd: "undec (take 2 (drop 1 rest)) = day t"
    unfolding rest_def by (simp add: undec2 d)
  have mi: "undec (take 2 (drop 16 rest)) = minute t"
    unfolding rest_def by (simp add: undec2 d)
  have hh: "undec (take 2 (drop 13 rest)) = hour12 (hour t)"
    unfolding rest_def by (simp add: undec2 d)
  have ap: "(take 2 (drop 19 rest) = ''PM'') = (am_pm (hour t) = ''PM'')"
    unfolding rest_def by (simp add: pm)
  show ?thesis
    unfolding embedded_timestamp_def s1 option.case s2 prod.case
    by (simp only: s3 yy dd mi hh ap if_True hour_back[OF b(1)])
qed

subsection \<open>Truncating a clock reading keeps the order\<close>

lemma lex_le_take: "lex_le xs ys \<Longrightarrow> lex_le (take n xs) (take n ys)"
proof (induction xs ys arbitrary: n rule: lex_le.induct)
  case (1 ys)
  then show ?case by simp
next
  case (2 x xs)
  then show ?case by simp
next
  case (3 x xs y ys)
  then show ?case by (cases n) auto
qed

lemma minute_stamp_mono:
  assumes "dt_le a b"
  shows "lex_le [year a, month a, day a, hour a, minute a]
                [year b, month b, day b, hour b, minute b]"
  using lex_le_take[OF assms[unfolded dt_le_def], of 5] by (simp add: fields_def)

subsection \<open>The example clock readings\<close>

lemma digit_chars:
  "digit 0 = CHR ''0''" "digit 1 = CHR ''1''" "digit 2 = CHR ''2''" "digit 3 = CHR ''3''"
  "digit 4 = CHR ''4''" "digit 5 = CHR ''5''" "digit 6 = CHR ''6''" "digit 7 = CHR ''7''"
  "digit 8 = CHR ''8''" "digit 9 = CHR ''9''" "digit (Suc 0) = CHR ''1''"
  unfolding digit_def by code_simp+

lemma valid_clock_a: "valid_datetime clock_a"
  by (simp add: valid_datetime_def clock_a_def)

lemma valid_clock_b: "valid_datetime clock_b"
  by (simp add: valid_datetime_def clock_b_def)

lemma long_form_clock_a:
  "long_form clock_a = ''Current date and time: March 09, 2024 at 02:05 PM''"
  unfolding long_form_explicit[OF valid_clock_a]
  by (simp add: clock_a_def month_name_def month_names_def hour12_def am_pm_def digit_chars)

lemma long_form_clock_b:
  "long_form clock_b = ''Current date and time: March 09, 2024 at 02:06 PM''"
  unfolding long_form_explicit[OF valid_clock_b]
  by (simp add: clock_b_def month_name_def month_names_def hour12_def am_pm_def digit_chars)

lemma date_clock_a: "strftime clock_a (PStr ''%Y-%m-%d'') = Inr ''2024-03-09''"
proof -
  have b: "year clock_a < 10000" "month clock_a < 100" "day clock_a < 100"
    by (simp_all add: clock_a_def)
  show ?thesis
    unfolding render_date zfill4[OF b(1)] zfill2[OF b(2)] zfill2[OF b(3)]
    by (simp add: clock_a_def digit_chars)
qed

lemma datetime_clock_a:
  "strftime clock_a (PStr ''%Y-%m-%d %H:%M:%S'') = Inr ''2024-03-09 14:05:07''"
proof -
  have b: "year clock_a < 10000" "month clock_a < 100" "day clock_a < 100"
    "hour clock_a < 100" "minute clock_a < 100" "second clock_a < 100"
    by (simp_all add: clock_a_def)
  show ?thesis
    unfolding render_datetime zfill4[OF b(1)] zfill2[OF b(2)] zfill2[OF b(3)]
      zfill2[OF b(4)] zfill2[OF b(5)] zfill2[OF b(6)]
    by (simp add: clock_a_def digit_chars)
qed

lemma valid_clock_c: "valid_datetime clock_c"
  by (simp add: valid_datetime_def clock_c_def)

lemma valid_clock_d: "valid_datetime clock_d"
  by (simp add: valid_datetime_def clock_d_def)

lemma long_form_clock_c:
  "long_form clock_c = ''Current date and time: January 01, 2025 at 12:05 AM''"
  unfolding long_form_explicit[OF valid_clock_c]
  by (simp add: clock_c_def month_name_def month_names_def hour12_def am_pm_def digit_chars)

lemma long_form_clock_d:
  "long_form clock_d = ''Current date and time: November 30, 2023 at 09:41 AM''"
  unfolding long_form_explicit[OF valid_clock_d]
  by (simp add: clock_d_def month_name_def month_names_def hour12_def am_pm_def digit_chars)

subsection \<open>Patterns the engine does not render\<close>

lemma strftime_unknown_directive: "strftime t (PStr ''%Q'') = Inr ''%Q''"
  by (simp add: strftime_def render_def is_cont_def directive_def)

lemma strftime_lone_percent: "strftime t (PStr ''%'') = Inr ''%''"
  by (simp add: strftime_def render_def)

lemma hex_chars: "char_of (56 :: nat) = CHR ''8''" "char_of (48 :: nat) = CHR ''0''"
  by code_simp+

lemma strftime_lone_surrogate:
  "strftime t (PStr lone_surrogate) = Inl (PyExc UnicodeEncodeError lone_surrogate_message)"
  unfolding strftime_def lone_surrogate_def lone_surrogate_message_def encode_error_def
    surrogate_escape_def hex_digit_def
  by (simp add: is_cont_def dec.simps digit0 hex_chars Let_def)

lemma strftime_int:
  "strftime t (PInt i) = Inl (PyExc TypeError ''strftime() argument 1 must be str, not int'')"
  by (simp add: strftime_def)

section \<open>Unknown tools\<close>

text \<open>
  C1. A name that is neither \<^verbatim>\<open>get_current_date\<close> nor \<^verbatim>\<open>get_date_with_format\<close>
  makes \<open>call_tool\<close> return normally, whatever the argument map, the engine and
  the clock: the result is one text item reading
  \<^verbatim>\<open>Error: Unknown tool '<name>'\<close>. The error is the payload, not an exception.
\<close>

theorem unknown_tool_reported:
  assumes "nm \<noteq> ''get_current_date''" and "nm \<noteq> ''get_date_with_format''"
  shows "call_tool fmt now nm arguments =
           Inr [\<lparr>content_type = ''text'',
                 content_text = ''Error: Unknown tool '' @ [CHR 0x27] @ nm @ [CHR 0x27]\<rparr>]"
  using assms by (simp add: call_tool_def text_item_def)

theorem unknown_tool_reported_witness:
  "''get_weather'' \<noteq> ''get_current_date'' \<and> ''get_weather'' \<noteq> ''get_date_with_format'' \<and>
   call_tool strftime clock_a ''get_weather'' [''city'' \<mapsto> PStr ''Oslo''] =
   Inr [\<lparr>content_type = ''text'',
         content_text = ''Error: Unknown tool '' @ [CHR 0x27] @ ''get_weather'' @ [CHR 0x27]\<rparr>]"
  using unknown_tool_reported [of "''get_weather''" strftime clock_a
      "[''city'' \<mapsto> PStr ''Oslo'']"]
  by simp

section \<open>Patterns the engine rejects, and those it does not\<close>

text \<open>
  C2. A pattern with a directive the engine does not know is not reported. For
  \<^verbatim>\<open>%Q\<close> the engine raises nothing and copies the directive to its output, so
  the \<^verbatim>\<open>except ValueError\<close> clause of \<^verbatim>\<open>get_date_with_format\<close> is not entered:
  at every clock reading the call returns the one text item \<^verbatim>\<open>%Q\<close>, which does
  not begin with \<^verbatim>\<open>Error:\<close>; a pattern that is a lone \<^verbatim>\<open>%\<close> comes back the
  same way. The clause is entered for a pattern the engine does reject, one with a
  lone surrogate: there the result is the text item
  \<^verbatim>\<open>Error: Invalid format string - \<close> followed by the engine's message.
\<close>

theorem unknown_directive_not_reported:
  "call_tool strftime now ''get_date_with_format'' [''format'' \<mapsto> PStr ''%Q''] =
     Inr [\<lparr>content_type = ''text'', content_text = ''%Q''\<rparr>] \<and>
   take 6 ''%Q'' \<noteq> ''Error:'' \<and>
   call_tool strftime now ''get_date_with_format'' [''format'' \<mapsto> PStr ''%''] =
     Inr [\<lparr>content_type = ''text'', content_text = ''%''\<rparr>] \<and>
   call_tool strftime now ''get_date_with_format'' [''format'' \<mapsto> PStr lone_surrogate] =
     Inr [\<lparr>content_type = ''text'',
           content_text = ''Error: Invalid format string - '' @ lone_surrogate_message\<rparr>]"
  by (simp add: call_tool_def dict_get_def text_item_def strftime_unknown_directive
      strftime_lone_percent strftime_lone_surrogate)

text \<open>
  C3. In \<^verbatim>\<open>get_date_with_format\<close> an exception of the engine leaves
  \<open>call_tool\<close> exactly when it is not a \<^verbatim>\<open>ValueError\<close>; a \<^verbatim>\<open>ValueError\<close> is
  turned into a text item. A value bound to \<^verbatim>\<open>format\<close> that is not a string is
  such a propagating fault: the \<^verbatim>\<open>TypeError\<close> of the engine reaches the caller.
\<close>

theorem only_ValueError_swallowed:
  "((call_tool fmt now ''get_date_with_format'' arguments = Inl e) =
      (fmt now (dict_get arguments ''format'' (PStr ''%Y-%m-%d %H:%M:%S'')) = Inl e \<and>
       \<not> is_ValueError e)) \<and>
   (fmt now (dict_get arguments ''format'' (PStr ''%Y-%m-%d %H:%M:%S'')) = Inl e \<and>
    is_ValueError e \<longrightarrow>
      call_tool fmt now ''get_date_with_format'' arguments =
        Inr [text_item (''Error: Invalid format string - '' @ exc_str e)]) \<and>
   call_tool strftime now ''get_date_with_format'' [''format'' \<mapsto> PInt 5] =
     Inl (PyExc TypeError ''strftime() argument 1 must be str, not int'')"
  by (auto simp: call_tool_def Let_def strftime_def dict_get_def split: sum.splits)

theorem only_ValueError_swallowed_witness:
  "strftime clock_a (dict_get [''format'' \<mapsto> PStr lone_surrogate] ''format''
      (PStr ''%Y-%m-%d %H:%M:%S'')) =
     Inl (PyExc UnicodeEncodeError lone_surrogate_message) \<and>
   is_ValueError (PyExc UnicodeEncodeError lone_surrogate_message) \<and>
   call_tool strftime clock_a ''get_date_with_format'' [''format'' \<mapsto> PStr lone_surrogate] =
     Inr [text_item (''Error: Invalid format string - '' @
       exc_str (PyExc UnicodeEncodeError lone_surrogate_message))] \<and>
   strftime clock_a (dict_get [''format'' \<mapsto> PInt 5] ''format''
      (PStr ''%Y-%m-%d %H:%M:%S'')) =
     Inl (PyExc TypeError ''strftime() argument 1 must be str, not int'') \<and>
   \<not> is_ValueError (PyExc TypeError ''strftime() argument 1 must be str, not int'') \<and>
   call_tool strftime clock_a ''get_date_with_format'' [''format'' \<mapsto> PInt 5] =
     Inl (PyExc TypeError ''strftime() argument 1 must be str, not int'')"
  using only_ValueError_swallowed [of strftime clock_a "[''format'' \<mapsto> PStr lone_surrogate]"
      "PyExc UnicodeEncodeError lone_surrogate_message"]
    only_ValueError_swallowed [of strftime clock_a "[''format'' \<mapsto> PInt 5]"
      "PyExc TypeError ''strftime() argument 1 must be str, not int''"]
  by (simp add: strftime_lone_surrogate strftime_int dict_get_def)

section \<open>Formatted dates\<close>

text \<open>
  C4. At a valid clock reading, \<^verbatim>\<open>get_date_with_format\<close> with \<^verbatim>\<open>format\<close> bound to
  \<^verbatim>\<open>%Y-%m-%d\<close> returns a text matching \<^verbatim>\<open>^\d{4}-\d{2}-\d{2}$\<close>. Without the key
  \<^verbatim>\<open>format\<close> the result is that of the default pattern \<^verbatim>\<open>%Y-%m-%d %H:%M:%S\<close>,
  a text matching \<^verbatim>\<open>^\d{4}-\d{2}-\d{2} \d{2}:\d{2}:\d{2}$\<close>.
\<close>

theorem formatted_date_patterns:
  assumes "valid_datetime now"
  shows "(arguments ''format'' = Some (PStr ''%Y-%m-%d'') \<longrightarrow>
            (\<exists>s. call_tool strftime now ''get_date_with_format'' arguments =
                   Inr [\<lparr>content_type = ''text'', content_text = s\<rparr>] \<and>
                 matches date_re s)) \<and>
         (arguments ''format'' = None \<longrightarrow>
            (\<exists>s. call_tool strftime now ''get_date_with_format'' arguments =
                   Inr [\<lparr>content_type = ''text'', content_text = s\<rparr>] \<and>
                 call_tool strftime now ''get_date_with_format'' arguments =
                   call_tool strftime now ''get_date_with_format''
                     (arguments(''format'' \<mapsto> PStr ''%Y-%m-%d %H:%M:%S'')) \<and>
                 matches datetime_re s))"
proof (intro conjI impI)
  assume "arguments ''format'' = Some (PStr ''%Y-%m-%d'')"
  then show "\<exists>s. call_tool strftime now ''get_date_with_format'' arguments =
                   Inr [\<lparr>content_type = ''text'', content_text = s\<rparr>] \<and>
                 matches date_re s"
    using matches_date[OF assms]
    by (simp add: call_tool_def dict_get_def render_date text_item_def)
next
  assume "arguments ''format'' = None"
  then show "\<exists>s. call_tool strftime now ''get_date_with_format'' arguments =
                   Inr [\<lparr>content_type = ''text'', content_text = s\<rparr>] \<and>
                 call_tool strftime now ''get_date_with_format'' arguments =
                   call_tool strftime now ''get_date_with_format''
                     (arguments(''format'' \<mapsto> PStr ''%Y-%m-%d %H:%M:%S'')) \<and>
                 matches datetime_re s"
    using matches_datetime[OF assms]
    by (simp add: call_tool_def dict_get_def render_datetime text_item_def)
qed

theorem formatted_date_patterns_witness:
  "valid_datetime clock_a \<and>
   call_tool strftime clock_a ''get_date_with_format'' [''format'' \<mapsto> PStr ''%Y-%m-%d''] =
     Inr [\<lparr>content_type = ''text'', content_text = ''2024-03-09''\<rparr>] \<and>
   matches date_re ''2024-03-09'' \<and>
   call_tool strftime clock_a ''get_date_with_format'' Map.empty =
     Inr [\<lparr>content_type = ''text'', content_text = ''2024-03-09 14:05:07''\<rparr>] \<and>
   matches datetime_re ''2024-03-09 14:05:07''"
  using formatted_date_patterns [OF valid_clock_a, of "[''format'' \<mapsto> PStr ''%Y-%m-%d'']"]
    formatted_date_patterns [OF valid_clock_a, of Map.empty]
  by (simp add: valid_clock_a call_tool_def dict_get_def date_clock_a datetime_clock_a
      text_item_def)

section \<open>Tool discovery\<close>

text \<open>
  C5. Any two calls of \<open>list_tools\<close> return the same descriptors in the same order,
  whatever the state of the process at either call; the sequence is not empty and no
  two descriptors share a name.
\<close>

theorem list_tools_stable:
  "list_tools w1 = list_tools w2 \<and> list_tools w1 \<noteq> [] \<and>
   distinct (map name (list_tools w1)) \<and>
   map name (list_tools w1) = [''get_current_date'', ''get_date_with_format'']"
  by (simp add: list_tools_def)

section \<open>The current date\<close>

text \<open>
  C6. At a valid clock reading, \<^verbatim>\<open>get_current_date\<close> returns exactly one text item:
  the fixed wording followed by the month name, the day, the four-digit year, the hour
  on the 12-hour clock (1 to 12), the minute and AM or PM. Every such text matches the
  one long-form pattern, whatever the clock reading, and the text is that of the
  clock reading: read back from it, the year, the month, the day, the hour (0 to 23)
  and the minute are those of the clock.
\<close>

theorem current_date_long_form:
  assumes "valid_datetime now"
  shows "call_tool strftime now ''get_current_date'' arguments =
           Inr [\<lparr>content_type = ''text'', content_text = long_form now\<rparr>] \<and>
         matches long_form_re (long_form now) \<and>
         embedded_timestamp (long_form now) =
           Some [year now, month now, day now, hour now, minute now] \<and>
         1 \<le> hour12 (hour now) \<and> hour12 (hour now) \<le> 12 \<and>
         month_name (month now) \<in> set month_names"
proof -
  from assms have m: "1 \<le> month now" "month now \<le> 12"
    by (simp_all add: valid_datetime_def)
  show ?thesis
    using current_date_text[of now arguments] matches_long_form[OF assms]
      embedded_long_form[OF assms] hour12_range[of "hour now"] month_name_mem[OF m]
    by (simp add: text_item_def)
qed

theorem current_date_long_form_witness:
  "valid_datetime clock_c \<and>
   call_tool strftime clock_c ''get_current_date'' Map.empty =
     Inr [\<lparr>content_type = ''text'',
           content_text = ''Current date and time: January 01, 2025 at 12:05 AM''\<rparr>] \<and>
   matches long_form_re ''Current date and time: January 01, 2025 at 12:05 AM'' \<and>
   embedded_timestamp ''Current date and time: January 01, 2025 at 12:05 AM'' =
     Some [2025, 1, 1, 0, 5] \<and>
   valid_datetime clock_d \<and>
   call_tool strftime clock_d ''get_current_date'' Map.empty =
     Inr [\<lparr>content_type = ''text'',
           content_text = ''Current date and time: November 30, 2023 at 09:41 AM''\<rparr>] \<and>
   matches long_form_re ''Current date and time: November 30, 2023 at 09:41 AM'' \<and>
   embedded_timestamp ''Current date and time: November 30, 2023 at 09:41 AM'' =
     Some [2023, 11, 30, 9, 41] \<and>
   valid_datetime clock_a \<and>
   call_tool strftime clock_a ''get_current_date'' Map.empty =
     Inr [\<lparr>content_type = ''text'',
           content_text = ''Current date and time: March 09, 2024 at 02:05 PM''\<rparr>] \<and>
   matches long_form_re ''Current date and time: March 09, 2024 at 02:05 PM'' \<and>
   embedded_timestamp ''Current date and time: March 09, 2024 at 02:05 PM'' =
     Some [2024, 3, 9, 14, 5]"
proof -
  have fc: "year clock_c = 2025" "month clock_c = 1" "day clock_c = 1" "hour clock_c = 0"
    "minute clock_c = 5"
    by (simp_all add: clock_c_def)
  have fd: "year clock_d = 2023" "month clock_d = 11" "day clock_d = 30" "hour clock_d = 9"
    "minute clock_d = 41"
    by (simp_all add: clock_d_def)
  have fa: "year clock_a = 2024" "month clock_a = 3" "day clock_a = 9" "hour clock_a = 14"
    "minute clock_a = 5"
    by (simp_all add: clock_a_def)
  show ?thesis
    using current_date_long_form [OF valid_clock_c, of Map.empty]
      current_date_long_form [OF valid_clock_d, of Map.empty]
      current_date_long_form [OF valid_clock_a, of Map.empty]
    by (simp add: valid_clock_c valid_clock_d valid_clock_a long_form_clock_c
        long_form_clock_d long_form_clock_a fc fd fa)
qed

text \<open>
  C7. For two calls of \<^verbatim>\<open>get_current_date\<close> at valid clock readings, the second
  not before the first, both texts match the long-form pattern, and the timestamp
  read back from the second text (year, month, day, hour, minute) is not before the
  one read back from the first.
\<close>

theorem successive_calls_monotone:
  assumes "valid_datetime t1" and "valid_datetime t2" and "dt_le t1 t2"
  shows "\<exists>s1 s2 e1 e2.
           call_tool strftime t1 ''get_current_date'' a1 =
             Inr [\<lparr>content_type = ''text'', content_text = s1\<rparr>] \<and>
           call_tool strftime t2 ''get_current_date'' a2 =
             Inr [\<lparr>content_type = ''text'', content_text = s2\<rparr>] \<and>
           matches long_form_re s1 \<and> matches long_form_re s2 \<and>
           embedded_timestamp s1 = Some e1 \<and> embedded_timestamp s2 = Some e2 \<and>
           e1 = [year t1, month t1, day t1, hour t1, minute t1] \<and>
           e2 = [year t2, month t2, day t2, hour t2, minute t2] \<and>
           lex_le e1 e2"
  using current_date_text[of t1 a1] current_date_text[of t2 a2]
    matches_long_form[OF assms(1)] matches_long_form[OF assms(2)]
    embedded_long_form[OF assms(1)] embedded_long_form[OF assms(2)]
    minute_stamp_mono[OF assms(3)]
  by (simp add: text_item_def)

theorem successive_calls_monotone_witness:
  "valid_datetime clock_a \<and> valid_datetime clock_b \<and> dt_le clock_a clock_b \<and>
   call_tool strftime clock_a ''get_current_date'' Map.empty =
     Inr [\<lparr>content_type = ''text'',
           content_text = ''Current date and time: March 09, 2024 at 02:05 PM''\<rparr>] \<and>
   call_tool strftime clock_b ''get_current_date'' Map.empty =
     Inr [\<lparr>content_type = ''text'',
           content_text = ''Current date and time: March 09, 2024 at 02:06 PM''\<rparr>] \<and>
   embedded_timestamp ''Current date and time: March 09, 2024 at 02:05 PM'' =
     Some [2024, 3, 9, 14, 5] \<and>
   embedded_timestamp ''Current date and time: March 09, 2024 at 02:06 PM'' =
     Some [2024, 3, 9, 14, 6] \<and>
   lex_le [2024, 3, 9, 14, 5] [2024, 3, 9, 14, 6]"
proof -
  have le: "dt_le clock_a clock_b"
    by (simp add: dt_le_def fields_def clock_a_def clock_b_def)
  have fa: "year clock_a = 2024" "month clock_a = 3" "day clock_a = 9" "hour clock_a = 14"
    "minute clock_a = 5"
    by (simp_all add: clock_a_def)
  have fb: "year clock_b = 2024" "month clock_b = 3" "day clock_b = 9" "hour clock_b = 14"
    "minute clock_b = 6"
    by (simp_all add: clock_b_def)
  show ?thesis
    using successive_calls_monotone [OF valid_clock_a valid_clock_b le, of Map.empty Map.empty]
    by (auto simp: valid_clock_a valid_clock_b le current_date_text text_item_def
        long_form_clock_a long_form_clock_b fa fb)
qed

section \<open>Arguments\<close>

text \<open>
  C8. Both advertised schemas set \<^verbatim>\<open>additionalProperties\<close> to false, yet
  \<^verbatim>\<open>get_date_with_format\<close> reads nothing of its argument map but the value bound to
  \<^verbatim>\<open>format\<close>: two maps that agree on that key give the same result at the same
  clock reading, a map is as good as its restriction to that key, and a map without
  the key is as good as one that binds the default pattern.
\<close>

theorem result_depends_on_format_only:
  "(\<forall>t \<in> set (list_tools w). additionalProperties (inputSchema t) = False) \<and>
   (a1 ''format'' = a2 ''format'' \<longrightarrow>
      call_tool fmt now ''get_date_with_format'' a1 =
      call_tool fmt now ''get_date_with_format'' a2) \<and>
   call_tool fmt now ''get_date_with_format'' a1 =
     call_tool fmt now ''get_date_with_format'' (a1 |` {''format''}) \<and>
   (a1 ''format'' = None \<longrightarrow>
      call_tool fmt now ''get_date_with_format'' a1 =
      call_tool fmt now ''get_date_with_format'' [''format'' \<mapsto> PStr ''%Y-%m-%d %H:%M:%S''])"
  by (simp add: list_tools_def call_tool_def dict_get_def)

theorem result_depends_on_format_only_witness:
  "additionalProperties (inputSchema (list_tools () ! 0)) = False \<and>
   additionalProperties (inputSchema (list_tools () ! 1)) = False \<and>
   [''format'' \<mapsto> PStr ''%Y-%m-%d'', ''tz'' \<mapsto> PStr ''UTC''] ''format'' =
     [''format'' \<mapsto> PStr ''%Y-%m-%d''] ''format'' \<and>
   call_tool strftime clock_a ''get_date_with_format''
       [''format'' \<mapsto> PStr ''%Y-%m-%d'', ''tz'' \<mapsto> PStr ''UTC''] =
     call_tool strftime clock_a ''get_date_with_format'' [''format'' \<mapsto> PStr ''%Y-%m-%d''] \<and>
   [''tz'' \<mapsto> PStr ''UTC''] ''format'' = None \<and>
   call_tool strftime clock_a ''get_date_with_format'' [''tz'' \<mapsto> PStr ''UTC''] =
     call_tool strftime clock_a ''get_date_with_format''
       [''format'' \<mapsto> PStr ''%Y-%m-%d %H:%M:%S'']"
  using result_depends_on_format_only [of "()"
      "[''format'' \<mapsto> PStr ''%Y-%m-%d'', ''tz'' \<mapsto> PStr ''UTC'']"
      "[''format'' \<mapsto> PStr ''%Y-%m-%d'']" strftime clock_a]
    result_depends_on_format_only [of "()" "[''tz'' \<mapsto> PStr ''UTC'']"
      "[''tz'' \<mapsto> PStr ''UTC'']" strftime clock_a]
  by (simp add: list_tools_def call_tool_def dict_get_def)

text \<open>
  C9. Whenever \<open>call_tool\<close> returns normally, for any tool name, argument map, engine
  and clock reading, the value is a list of exactly one content item, of type
  \<^verbatim>\<open>text\<close>.
\<close>

theorem result_is_one_text_item:
  assumes "call_tool fmt now nm arguments = Inr r"
  shows "length r = 1 \<and> (\<exists>s. r = [\<lparr>content_type = ''text'', content_text = s\<rparr>])"
  using assms
  by (auto simp: call_tool_def Let_def text_item_def split: if_splits sum.splits)

theorem result_is_one_text_item_witness:
  "call_tool strftime clock_a ''get_current_date'' Map.empty =
     Inr [\<lparr>content_type = ''text'',
           content_text = ''Current date and time: March 09, 2024 at 02:05 PM''\<rparr>] \<and>
   length [\<lparr>content_type = ''text'',
            content_text = ''Current date and time: March 09, 2024 at 02:05 PM''\<rparr>] = 1"
  using result_is_one_text_item [of strftime clock_a "''get_current_date''" Map.empty
      "[\<lparr>content_type = ''text'',
         content_text = ''Current date and time: March 09, 2024 at 02:05 PM''\<rparr>]"]
  by (simp add: current_date_text text_item_def long_form_clock_a)

text \<open>
  C10. \<^verbatim>\<open>get_current_date\<close> never reads its argument map: at one clock reading,
  any two maps give the same result, be it a text or an exception of the engine.
\<close>

theorem current_date_ignores_arguments:
  "call_tool fmt now ''get_current_date'' a1 = call_tool fmt now ''get_current_date'' a2"
  by (simp add: call_tool_def)

end
